theory Spec2Isabelle
  imports Complex_Main
begin

section \<open>JavaScript numbers\<close>

text \<open>
  The indicator engine (\<^verbatim>\<open>src/chart/chartscript/ta.ts\<close>) computes on JavaScript
  numbers, IEEE-754 doubles. A number is modelled as not-a-number, one of the two
  infinities, or a finite value. The special values follow IEEE-754 as JavaScript does. A
  finite result of \<open>+\<close>, \<open>-\<close>, \<open>*\<close>, \<open>/\<close> or \<^verbatim>\<open>Math.exp\<close> overflows to the infinity of its
  sign when its magnitude reaches \<open>2^1024 - 2^970\<close>, the least magnitude that a double
  rounds to Infinity; below that the exact real result is kept, so rounding to 53 bits
  and underflow are not modelled. There is one zero (\<^verbatim>\<open>x === 0\<close> holds of both JavaScript
  zeros; a nonzero finite value divided by zero gives the infinity of the sign of the
  dividend, as for \<open>+0\<close>).
  Reading an array out of range gives \<^verbatim>\<open>undefined\<close>, which every arithmetic operator,
  comparison, \<^verbatim>\<open>isNaN\<close> and \<^verbatim>\<open>Math.max\<close> treat as they treat NaN.
\<close>

datatype jsnum = NaN | NInf | PInf | Fin real

fun isNaN :: "jsnum \<Rightarrow> bool" where
  "isNaN NaN = True"
| "isNaN _ = False"

fun is_fin :: "jsnum \<Rightarrow> bool" where
  "is_fin (Fin _) = True"
| "is_fin _ = False"

text \<open>The overflow threshold, and a real result as a number.\<close>

definition dbl_lim :: real where
  "dbl_lim = 2 ^ 1024 - 2 ^ 970"

definition ovf :: "real \<Rightarrow> jsnum" where
  "ovf r = (if dbl_lim \<le> r then PInf else if r \<le> - dbl_lim then NInf else Fin r)"

text \<open>Strict equality \<^verbatim>\<open>===\<close> on numbers: NaN is not equal to itself.\<close>

definition jeq :: "jsnum \<Rightarrow> jsnum \<Rightarrow> bool" where
  "jeq a b = (\<not> isNaN a \<and> a = b)"

instantiation jsnum :: "{plus, minus, uminus, times, inverse, abs, ord}"
begin

fun plus_jsnum :: "jsnum \<Rightarrow> jsnum \<Rightarrow> jsnum" where
  "plus_jsnum NaN _ = NaN"
| "plus_jsnum _ NaN = NaN"
| "plus_jsnum PInf NInf = NaN"
| "plus_jsnum NInf PInf = NaN"
| "plus_jsnum PInf _ = PInf"
| "plus_jsnum _ PInf = PInf"
| "plus_jsnum NInf _ = NInf"
| "plus_jsnum _ NInf = NInf"
| "plus_jsnum (Fin a) (Fin b) = ovf (a + b)"

fun uminus_jsnum :: "jsnum \<Rightarrow> jsnum" where
  "uminus_jsnum NaN = NaN"
| "uminus_jsnum PInf = NInf"
| "uminus_jsnum NInf = PInf"
| "uminus_jsnum (Fin a) = Fin (- a)"

definition minus_jsnum :: "jsnum \<Rightarrow> jsnum \<Rightarrow> jsnum" where
  "minus_jsnum a b = a + (- b)"

fun times_jsnum :: "jsnum \<Rightarrow> jsnum \<Rightarrow> jsnum" where
  "times_jsnum NaN _ = NaN"
| "times_jsnum _ NaN = NaN"
| "times_jsnum (Fin a) (Fin b) = ovf (a * b)"
| "times_jsnum (Fin a) PInf = (if a = 0 then NaN else if 0 < a then PInf else NInf)"
| "times_jsnum (Fin a) NInf = (if a = 0 then NaN else if 0 < a then NInf else PInf)"
| "times_jsnum PInf (Fin b) = (if b = 0 then NaN else if 0 < b then PInf else NInf)"
| "times_jsnum NInf (Fin b) = (if b = 0 then NaN else if 0 < b then NInf else PInf)"
| "times_jsnum PInf PInf = PInf"
| "times_jsnum NInf NInf = PInf"
| "times_jsnum PInf NInf = NInf"
| "times_jsnum NInf PInf = NInf"

fun divide_jsnum :: "jsnum \<Rightarrow> jsnum \<Rightarrow> jsnum" where
  "divide_jsnum NaN _ = NaN"
| "divide_jsnum _ NaN = NaN"
| "divide_jsnum (Fin a) (Fin b) =
     (if b = 0 then (if a = 0 then NaN else if 0 < a then PInf else NInf) else ovf (a / b))"
| "divide_jsnum (Fin a) PInf = Fin 0"
| "divide_jsnum (Fin a) NInf = Fin 0"
| "divide_jsnum PInf (Fin b) = (if 0 \<le> b then PInf else NInf)"
| "divide_jsnum NInf (Fin b) = (if 0 \<le> b then NInf else PInf)"
| "divide_jsnum _ _ = NaN"

definition inverse_jsnum :: "jsnum \<Rightarrow> jsnum" where
  "inverse_jsnum a = divide (Fin 1) a"

fun abs_jsnum :: "jsnum \<Rightarrow> jsnum" where
  "abs_jsnum NaN = NaN"
| "abs_jsnum PInf = PInf"
| "abs_jsnum NInf = PInf"
| "abs_jsnum (Fin a) = Fin \<bar>a\<bar>"

fun less_jsnum :: "jsnum \<Rightarrow> jsnum \<Rightarrow> bool" where
  "less_jsnum NaN _ = False"
| "less_jsnum _ NaN = False"
| "less_jsnum (Fin a) (Fin b) = (a < b)"
| "less_jsnum NInf NInf = False"
| "less_jsnum NInf _ = True"
| "less_jsnum _ NInf = False"
| "less_jsnum PInf _ = False"
| "less_jsnum _ PInf = True"

definition less_eq_jsnum :: "jsnum \<Rightarrow> jsnum \<Rightarrow> bool" where
  "less_eq_jsnum a b = (a < b \<or> jeq a b)"

instance ..

end

text \<open>\<^verbatim>\<open>Math.max\<close> and \<^verbatim>\<open>Math.min\<close> of two numbers: NaN if either is NaN.\<close>

definition Math_max :: "jsnum \<Rightarrow> jsnum \<Rightarrow> jsnum" where
  "Math_max a b = (if isNaN a \<or> isNaN b then NaN else if a < b then b else a)"

definition Math_min :: "jsnum \<Rightarrow> jsnum \<Rightarrow> jsnum" where
  "Math_min a b = (if isNaN a \<or> isNaN b then NaN else if b < a then b else a)"

fun Math_sqrt :: "jsnum \<Rightarrow> jsnum" where
  "Math_sqrt NaN = NaN"
| "Math_sqrt NInf = NaN"
| "Math_sqrt PInf = PInf"
| "Math_sqrt (Fin a) = (if a < 0 then NaN else Fin (sqrt a))"

fun Math_exp :: "jsnum \<Rightarrow> jsnum" where
  "Math_exp NaN = NaN"
| "Math_exp NInf = Fin 0"
| "Math_exp PInf = PInf"
| "Math_exp (Fin a) = ovf (exp a)"

text \<open>An array read \<^verbatim>\<open>xs[i]\<close>; out of range it gives \<^verbatim>\<open>undefined\<close>, here NaN.\<close>

definition aget :: "jsnum list \<Rightarrow> nat \<Rightarrow> jsnum" where
  "aget xs i = (if i < length xs then xs ! i else NaN)"

text \<open>A window length as a number.\<close>

definition num :: "nat \<Rightarrow> jsnum" where
  "num n = Fin (real n)"

text \<open>\<^verbatim>\<open>x ** 2\<close>\<close>

definition pow2 :: "jsnum \<Rightarrow> jsnum" where
  "pow2 x = x * x"

text \<open>\<^verbatim>\<open>xs.map((x, i) => f(x, i))\<close>\<close>

definition mapi :: "('a \<Rightarrow> nat \<Rightarrow> 'b) \<Rightarrow> 'a list \<Rightarrow> 'b list" where
  "mapi f xs = map (\<lambda>i. f (xs ! i) i) [0..<length xs]"

section \<open>Moving averages\<close>

text \<open>
  Window lengths are integers (a \<^typ>\<open>nat\<close>), on which \<^verbatim>\<open>Math.floor\<close> is the identity.
  A windowed function is a loop over the bars \<open>i\<close> that pushes one value per bar; the
  inner loops over \<open>j\<close> are folds over \<open>[0..<len]\<close>. In the branch that reads
  \<^verbatim>\<open>source[i - j]\<close> the index is never negative, since \<open>i \<ge> len - 1 \<ge> j\<close>.
\<close>

definition sma :: "jsnum list \<Rightarrow> nat \<Rightarrow> jsnum list" where
  "sma source len =
     map (\<lambda>i. if int i < int len - 1 then NaN
              else (let sum = fold (\<lambda>j sum. sum + aget source (i - j)) [0..<len] (Fin 0)
                    in sum / num len))
       [0..<length source]"

fun ema_loop :: "jsnum \<Rightarrow> nat \<Rightarrow> jsnum \<Rightarrow> jsnum list \<Rightarrow> jsnum list" where
  "ema_loop multiplier i emaVal [] = []"
| "ema_loop multiplier i emaVal (x # xs) =
     (if i = 0 then x # ema_loop multiplier (Suc i) x xs
      else (let emaVal' = (x - emaVal) * multiplier + emaVal
            in emaVal' # ema_loop multiplier (Suc i) emaVal' xs))"

definition ema :: "jsnum list \<Rightarrow> nat \<Rightarrow> jsnum list" where
  "ema source len =
     (let multiplier = Fin 2 / (num len + Fin 1)
      in ema_loop multiplier 0 (aget source 0) source)"

text \<open>
  Wilder's smoothing. The first loop runs while \<^verbatim>\<open>validCount < len\<close> and carries
  \<^verbatim>\<open>(initSum, validCount, firstValidIdx)\<close>; the second loop carries \<^verbatim>\<open>rmaVal\<close>.
\<close>

fun rma_init :: "nat \<Rightarrow> nat \<Rightarrow> jsnum \<times> nat \<times> int \<Rightarrow> jsnum list \<Rightarrow> jsnum \<times> nat \<times> int" where
  "rma_init len i (initSum, validCount, firstValidIdx) [] = (initSum, validCount, firstValidIdx)"
| "rma_init len i (initSum, validCount, firstValidIdx) (x # xs) =
     (if validCount < len then
        (if \<not> isNaN x then
           rma_init len (Suc i)
             (initSum + x, Suc validCount,
              if Suc validCount = len then int i else firstValidIdx) xs
         else rma_init len (Suc i) (initSum, validCount, firstValidIdx) xs)
      else (initSum, validCount, firstValidIdx))"

fun rma_loop :: "jsnum \<Rightarrow> int \<Rightarrow> nat \<Rightarrow> jsnum \<Rightarrow> jsnum list \<Rightarrow> jsnum list" where
  "rma_loop alpha firstValidIdx i rmaVal [] = []"
| "rma_loop alpha firstValidIdx i rmaVal (x # xs) =
     (if firstValidIdx < 0 \<or> int i < firstValidIdx then
        NaN # rma_loop alpha firstValidIdx (Suc i) rmaVal xs
      else if int i = firstValidIdx then
        rmaVal # rma_loop alpha firstValidIdx (Suc i) rmaVal xs
      else
        (let rmaVal' = (if \<not> isNaN x then alpha * x + (Fin 1 - alpha) * rmaVal else rmaVal)
         in rmaVal' # rma_loop alpha firstValidIdx (Suc i) rmaVal' xs))"

definition rma :: "jsnum list \<Rightarrow> nat \<Rightarrow> jsnum list" where
  "rma source len =
     (let alpha = Fin 1 / num len;
          (initSum, validCount, firstValidIdx) = rma_init len 0 (Fin 0, 0, - 1) source;
          rmaVal = (if validCount > 0 then initSum / num validCount else NaN)
      in rma_loop alpha firstValidIdx 0 rmaVal source)"

definition wma :: "jsnum list \<Rightarrow> nat \<Rightarrow> jsnum list" where
  "wma source len =
     map (\<lambda>i. if int i < int len - 1 then NaN
              else (let (sum, weightSum) =
                          fold (\<lambda>j (sum, weightSum).
                                  (let weight = num len - num j
                                   in (sum + aget source (i - j) * weight, weightSum + weight)))
                            [0..<len] (Fin 0, Fin 0)
                    in sum / weightSum))
       [0..<length source]"

definition alma :: "jsnum list \<Rightarrow> nat \<Rightarrow> jsnum \<Rightarrow> jsnum \<Rightarrow> jsnum list" where
  "alma source len offset sigma =
     (let m = offset * (num len - Fin 1);
          s = num len / sigma;
          (weights, weightSum) =
             fold (\<lambda>i (weights, weightSum).
                     (let w = Math_exp (- pow2 (num i - m) / (Fin 2 * s * s))
                      in (weights @ [w], weightSum + w)))
               [0..<len] ([], Fin 0)
      in map (\<lambda>i. if int i < int len - 1 then NaN
                  else (let sum = fold (\<lambda>j sum. sum + aget source (i - j) * aget weights (len - 1 - j))
                                    [0..<len] (Fin 0)
                        in sum / weightSum))
           [0..<length source])"

section \<open>Rolling extrema\<close>

definition highest :: "jsnum list \<Rightarrow> nat \<Rightarrow> jsnum list" where
  "highest source len =
     map (\<lambda>i. if int i < int len - 1 then NaN
              else (let mx = fold (\<lambda>j mx. if \<not> isNaN (aget source (i - j))
                                           then Math_max mx (aget source (i - j)) else mx)
                               [0..<len] NInf
                    in if jeq mx NInf then NaN else mx))
       [0..<length source]"

definition lowest :: "jsnum list \<Rightarrow> nat \<Rightarrow> jsnum list" where
  "lowest source len =
     map (\<lambda>i. if int i < int len - 1 then NaN
              else (let mn = fold (\<lambda>j mn. if \<not> isNaN (aget source (i - j))
                                           then Math_min mn (aget source (i - j)) else mn)
                               [0..<len] PInf
                    in if jeq mn PInf then NaN else mn))
       [0..<length source]"

section \<open>Dispersion\<close>

definition stdev :: "jsnum list \<Rightarrow> nat \<Rightarrow> jsnum list" where
  "stdev source len =
     (let avg = sma source len
      in map (\<lambda>i. if int i < int len - 1 then NaN
                  else (let sumSq = fold (\<lambda>j sumSq. sumSq + pow2 (aget source (i - j) - aget avg i))
                                      [0..<len] (Fin 0)
                        in Math_sqrt (sumSq / num len)))
           [0..<length source])"

definition dev :: "jsnum list \<Rightarrow> nat \<Rightarrow> jsnum list" where
  "dev source len =
     (let avg = sma source len
      in map (\<lambda>i. if int i < int len - 1 then NaN
                  else (let sum = fold (\<lambda>j sum. sum + \<bar>aget source (i - j) - aget avg i\<bar>)
                                    [0..<len] (Fin 0)
                        in sum / num len))
           [0..<length source])"

definition variance :: "jsnum list \<Rightarrow> nat \<Rightarrow> bool \<Rightarrow> jsnum list" where
  "variance source len biased =
     (let avg = sma source len
      in map (\<lambda>i. if int i < int len - 1 then NaN
                  else (let sumSq = fold (\<lambda>j sumSq. sumSq + pow2 (aget source (i - j) - aget avg i))
                                      [0..<len] (Fin 0)
                        in sumSq / (if biased then num len else num len - Fin 1)))
           [0..<length source])"

section \<open>Statistics over a window\<close>

text \<open>
  \<^verbatim>\<open>values.sort((a, b) => a - b)\<close> is the engine's own \<^verbatim>\<open>Array.prototype.sort\<close>. It is a
  parameter \<open>srt\<close> of \<^verbatim>\<open>median\<close>, applied to the comparator and the values: with a NaN
  among the values the comparator is inconsistent and the order the engine leaves is
  implementation defined. \<open>js_sort\<close> is one such sort, a stable insertion sort that places
  each value before the first one it compares below.
\<close>

fun sort_insert :: "(jsnum \<Rightarrow> jsnum \<Rightarrow> jsnum) \<Rightarrow> jsnum \<Rightarrow> jsnum list \<Rightarrow> jsnum list" where
  "sort_insert cmp x [] = [x]"
| "sort_insert cmp x (y # ys) =
     (if cmp x y < Fin 0 then x # y # ys else y # sort_insert cmp x ys)"

definition js_sort :: "(jsnum \<Rightarrow> jsnum \<Rightarrow> jsnum) \<Rightarrow> jsnum list \<Rightarrow> jsnum list" where
  "js_sort cmp vs = fold (sort_insert cmp) vs []"

definition median ::
  "((jsnum \<Rightarrow> jsnum \<Rightarrow> jsnum) \<Rightarrow> jsnum list \<Rightarrow> jsnum list) \<Rightarrow> jsnum list \<Rightarrow> nat \<Rightarrow> jsnum list" where
  "median srt source len =
     map (\<lambda>i. if int i < int len - 1 then NaN
              else (let values = srt (\<lambda>a b. a - b) (map (\<lambda>j. aget source (i - j)) [0..<len]);
                        mid = length values div 2
                    in if length values mod 2 = 0
                       then ((if mid = 0 then NaN else aget values (mid - 1)) + aget values mid) / Fin 2
                       else aget values mid))
       [0..<length source]"

text \<open>
  The \<^verbatim>\<open>Map\<close> of counts keeps its keys in insertion order: an association list.
\<close>

fun counts_get :: "(jsnum \<times> nat) list \<Rightarrow> jsnum \<Rightarrow> nat" where
  "counts_get [] v = 0"
| "counts_get ((k, c) # kcs) v = (if k = v then c else counts_get kcs v)"

fun counts_set :: "(jsnum \<times> nat) list \<Rightarrow> jsnum \<Rightarrow> nat \<Rightarrow> (jsnum \<times> nat) list" where
  "counts_set [] v n = [(v, n)]"
| "counts_set ((k, c) # kcs) v n = (if k = v then (k, n) # kcs else (k, c) # counts_set kcs v n)"

definition mode :: "jsnum list \<Rightarrow> nat \<Rightarrow> jsnum list" where
  "mode source len =
     map (\<lambda>i. if int i < int len - 1 then NaN
              else (let counts = fold (\<lambda>j counts.
                                         (let val = aget source (i - j)
                                          in counts_set counts val (counts_get counts val + 1)))
                                   [0..<len] [];
                        (maxCount, modeVal) =
                           fold (\<lambda>(val, count) (maxCount, modeVal).
                                   if count > maxCount then (count, val) else (maxCount, modeVal))
                             counts (0, NaN)
                    in modeVal))
       [0..<length source]"

definition cog :: "jsnum list \<Rightarrow> nat \<Rightarrow> jsnum list" where
  "cog source len =
     map (\<lambda>i. if int i < int len - 1 then NaN
              else (let (n, den) = fold (\<lambda>j (n, den).
                                           (n + aget source (i - j) * (num j + Fin 1),
                                            den + aget source (i - j)))
                                     [0..<len] (Fin 0, Fin 0)
                    in if jeq den (Fin 0) then Fin 0 else - n / den))
       [0..<length source]"

definition linreg :: "jsnum list \<Rightarrow> nat \<Rightarrow> jsnum \<Rightarrow> jsnum list" where
  "linreg source len offset =
     map (\<lambda>i. if int i < int len - 1 then NaN
              else (let (sumX, sumY, sumXY, sumX2) =
                          fold (\<lambda>j (sumX, sumY, sumXY, sumX2).
                                  (let x = num j; y = aget source (i - (len - 1 - j))
                                   in (sumX + x, sumY + y, sumXY + x * y, sumX2 + x * x)))
                            [0..<len] (Fin 0, Fin 0, Fin 0, Fin 0);
                        slope = (num len * sumXY - sumX * sumY) / (num len * sumX2 - sumX * sumX);
                        intercept = (sumY - slope * sumX) / num len
                    in intercept + slope * (num len - Fin 1 - offset)))
       [0..<length source]"

definition correlation :: "jsnum list \<Rightarrow> jsnum list \<Rightarrow> nat \<Rightarrow> jsnum list" where
  "correlation s1 s2 len =
     map (\<lambda>i. if int i < int len - 1 then NaN
              else (let (sum1, sum2, n) =
                          fold (\<lambda>j (sum1, sum2, n).
                                  (sum1 + aget s1 (i - j), sum2 + aget s2 (i - j), n + Fin 1))
                            [0..<len] (Fin 0, Fin 0, Fin 0);
                        mean1 = sum1 / n; mean2 = sum2 / n;
                        (nm, den1, den2) =
                          fold (\<lambda>j (nm, den1, den2).
                                  (let d1 = aget s1 (i - j) - mean1; d2 = aget s2 (i - j) - mean2
                                   in (nm + d1 * d2, den1 + d1 * d1, den2 + d2 * d2)))
                            [0..<len] (Fin 0, Fin 0, Fin 0);
                        den = Math_sqrt (den1 * den2)
                    in if jeq den (Fin 0) then NaN else nm / den))
       [0..<length s1]"

definition percentrank :: "jsnum list \<Rightarrow> nat \<Rightarrow> jsnum list" where
  "percentrank source len =
     map (\<lambda>i. if int i < int len - 1 then NaN
              else (let count = fold (\<lambda>j count. if aget source (i - j) \<le> aget source i
                                                  then count + Fin 1 else count)
                                  [1..<len] (Fin 0)
                    in (count / (num len - Fin 1)) * Fin 100))
       [0..<length source]"

section \<open>Oscillators\<close>

text \<open>The two running sums of \<^verbatim>\<open>cmo\<close> at bar \<open>i\<close>: \<^verbatim>\<open>(sumUp, sumDown)\<close>.\<close>

definition cmo_sums :: "jsnum list \<Rightarrow> nat \<Rightarrow> nat \<Rightarrow> jsnum \<times> jsnum" where
  "cmo_sums source len i =
     fold (\<lambda>j (sumUp, sumDown).
             (let change = aget source (i - j) - aget source (i - j - 1)
              in if change > Fin 0 then (sumUp + change, sumDown)
                 else (sumUp, sumDown - change)))
       [0..<len] (Fin 0, Fin 0)"

definition cmo :: "jsnum list \<Rightarrow> nat \<Rightarrow> jsnum list" where
  "cmo source len =
     map (\<lambda>i. if i < len then NaN
              else (let (sumUp, sumDown) = cmo_sums source len i;
                        total = sumUp + sumDown
                    in if jeq total (Fin 0) then Fin 0
                       else ((sumUp - sumDown) / total) * Fin 100))
       [0..<length source]"

text \<open>Typical price \<^verbatim>\<open>high.map((h, i) => (h + low[i] + close[i]) / 3)\<close>.\<close>

definition typical :: "jsnum list \<Rightarrow> jsnum list \<Rightarrow> jsnum list \<Rightarrow> jsnum list" where
  "typical high low close = mapi (\<lambda>h i. (h + aget low i + aget close i) / Fin 3) high"

definition mfi :: "jsnum list \<Rightarrow> jsnum list \<Rightarrow> jsnum list \<Rightarrow> jsnum list \<Rightarrow> nat \<Rightarrow> jsnum list" where
  "mfi high low close volume len =
     (let tp = typical high low close;
          mf = mapi (\<lambda>t i. t * aget volume i) tp
      in map (\<lambda>i. if i < len then NaN
                  else (let (posMF, negMF) =
                              fold (\<lambda>j (posMF, negMF).
                                      if aget tp (i - j) > aget tp (i - j - 1)
                                      then (posMF + aget mf (i - j), negMF)
                                      else (posMF, negMF + aget mf (i - j)))
                                [0..<len] (Fin 0, Fin 0)
                        in if jeq negMF (Fin 0) then Fin 100
                           else Fin 100 - Fin 100 / (Fin 1 + posMF / negMF)))
           [0..<length close])"

text \<open>
  The intermediate series of \<^verbatim>\<open>rsi\<close>: the bar-to-bar changes, and the Wilder averages of
  their positive and (sign-flipped) negative parts.
\<close>

definition changes_of :: "jsnum list \<Rightarrow> jsnum list" where
  "changes_of source = map (\<lambda>i. aget source i - aget source (i - 1)) [1..<length source]"

definition rsi_avgGains :: "jsnum list \<Rightarrow> nat \<Rightarrow> jsnum list" where
  "rsi_avgGains source len =
     (let gains = map (\<lambda>c. if c > Fin 0 then c else Fin 0) (changes_of source)
      in rma gains len)"

definition rsi_avgLosses :: "jsnum list \<Rightarrow> nat \<Rightarrow> jsnum list" where
  "rsi_avgLosses source len =
     (let losses = map (\<lambda>c. if c < Fin 0 then - c else Fin 0) (changes_of source)
      in rma losses len)"

definition rsi :: "jsnum list \<Rightarrow> nat \<Rightarrow> jsnum list" where
  "rsi source len =
     (let avgGains = rsi_avgGains source len;
          avgLosses = rsi_avgLosses source len
      in NaN # map (\<lambda>i. if jeq (aget avgLosses i) (Fin 0) then Fin 100
                         else (let rs = aget avgGains i / aget avgLosses i
                               in Fin 100 - Fin 100 / (Fin 1 + rs)))
                 [0..<length avgGains])"

text \<open>The raw %K of \<^verbatim>\<open>stoch\<close>, before its two smoothings.\<close>

definition stoch_rawK :: "jsnum list \<Rightarrow> jsnum list \<Rightarrow> jsnum list \<Rightarrow> nat \<Rightarrow> jsnum list" where
  "stoch_rawK close high low kPeriod =
     (let lowestLow = lowest low kPeriod;
          highestHigh = highest high kPeriod
      in mapi (\<lambda>c i. (let range = aget highestHigh i - aget lowestLow i
                       in if jeq range (Fin 0) then Fin 50
                          else ((c - aget lowestLow i) / range) * Fin 100)) close)"

definition stoch ::
  "jsnum list \<Rightarrow> jsnum list \<Rightarrow> jsnum list \<Rightarrow> nat \<Rightarrow> nat \<Rightarrow> nat \<Rightarrow> jsnum list \<times> jsnum list" where
  "stoch close high low kPeriod kSmooth dSmooth =
     (let rawK = stoch_rawK close high low kPeriod;
          k = sma rawK kSmooth;
          d = sma k dSmooth
      in (k, d))"

definition cci :: "jsnum list \<Rightarrow> jsnum list \<Rightarrow> jsnum list \<Rightarrow> nat \<Rightarrow> jsnum list" where
  "cci high low close len =
     (let tp = typical high low close;
          tpSma = sma tp len;
          meanDev = dev tp len
      in mapi (\<lambda>t i. if jeq (aget meanDev i) (Fin 0) then Fin 0
                      else (t - aget tpSma i) / (Fin (15 / 1000) * aget meanDev i)) tp)"

definition wpr :: "jsnum list \<Rightarrow> jsnum list \<Rightarrow> jsnum list \<Rightarrow> nat \<Rightarrow> jsnum list" where
  "wpr high low close len =
     (let hh = highest high len;
          ll = lowest low len
      in mapi (\<lambda>c i. (let range = aget hh i - aget ll i
                       in if jeq range (Fin 0) then Fin (- 50)
                          else ((aget hh i - c) / range) * Fin (- 100))) close)"

text \<open>The smoothed absolute change of \<^verbatim>\<open>tsi\<close>, its denominator.\<close>

definition tsi_changes :: "jsnum list \<Rightarrow> jsnum list" where
  "tsi_changes source = Fin 0 # changes_of source"

definition tsi_smoothedAbs :: "jsnum list \<Rightarrow> nat \<Rightarrow> nat \<Rightarrow> jsnum list" where
  "tsi_smoothedAbs source shortLength longLength =
     (let absChanges = map (\<lambda>c. \<bar>c\<bar>) (tsi_changes source)
      in ema (ema absChanges longLength) shortLength)"

definition tsi :: "jsnum list \<Rightarrow> nat \<Rightarrow> nat \<Rightarrow> jsnum list" where
  "tsi source shortLength longLength =
     (let smoothedChange = ema (ema (tsi_changes source) longLength) shortLength;
          smoothedAbs = tsi_smoothedAbs source shortLength longLength
      in mapi (\<lambda>s i. if jeq (aget smoothedAbs i) (Fin 0) then Fin 0
                      else (s / aget smoothedAbs i) * Fin 100) smoothedChange)"

section \<open>Volatility\<close>

definition Math_max3 :: "jsnum \<Rightarrow> jsnum \<Rightarrow> jsnum \<Rightarrow> jsnum" where
  "Math_max3 a b c = Math_max (Math_max a b) c"

definition Math_min3 :: "jsnum \<Rightarrow> jsnum \<Rightarrow> jsnum \<Rightarrow> jsnum" where
  "Math_min3 a b c = Math_min (Math_min a b) c"

definition tr :: "jsnum list \<Rightarrow> jsnum list \<Rightarrow> jsnum list \<Rightarrow> jsnum list" where
  "tr high low close =
     (aget high 0 - aget low 0) #
     map (\<lambda>i. Math_max3 (aget high i - aget low i)
                 \<bar>aget high i - aget close (i - 1)\<bar>
                 \<bar>aget low i - aget close (i - 1)\<bar>)
       [1..<length high]"

definition atr :: "jsnum list \<Rightarrow> jsnum list \<Rightarrow> jsnum list \<Rightarrow> nat \<Rightarrow> jsnum list" where
  "atr high low close len = rma (tr high low close) len"

definition bb :: "jsnum list \<Rightarrow> nat \<Rightarrow> jsnum \<Rightarrow> jsnum list \<times> jsnum list \<times> jsnum list" where
  "bb source len mult =
     (let basis = sma source len;
          stdDev = stdev source len;
          upper = mapi (\<lambda>b i. b + mult * aget stdDev i) basis;
          lower = mapi (\<lambda>b i. b - mult * aget stdDev i) basis
      in (basis, upper, lower))"

definition bbw :: "jsnum list \<Rightarrow> nat \<Rightarrow> jsnum \<Rightarrow> jsnum list" where
  "bbw source len mult =
     (let (basis, upper, lower) = bb source len mult
      in mapi (\<lambda>u i. if jeq (aget basis i) (Fin 0) then Fin 0
                      else (u - aget lower i) / aget basis i) upper)"

definition kc ::
  "jsnum list \<Rightarrow> jsnum list \<Rightarrow> jsnum list \<Rightarrow> nat \<Rightarrow> jsnum \<Rightarrow> nat
     \<Rightarrow> jsnum list \<times> jsnum list \<times> jsnum list" where
  "kc high low close len mult atrLength =
     (let basis = ema close len;
          atrVal = atr high low close atrLength;
          upper = mapi (\<lambda>b i. b + mult * aget atrVal i) basis;
          lower = mapi (\<lambda>b i. b - mult * aget atrVal i) basis
      in (basis, upper, lower))"

definition kcw ::
  "jsnum list \<Rightarrow> jsnum list \<Rightarrow> jsnum list \<Rightarrow> nat \<Rightarrow> jsnum \<Rightarrow> nat \<Rightarrow> jsnum list" where
  "kcw high low close len mult atrLength =
     (let (basis, upper, lower) = kc high low close len mult atrLength
      in mapi (\<lambda>u i. if jeq (aget basis i) (Fin 0) then Fin 0
                      else (u - aget lower i) / aget basis i) upper)"

section \<open>Trend state machines\<close>

text \<open>
  SuperTrend carries \<^verbatim>\<open>prevLower\<close>, \<^verbatim>\<open>prevUpper\<close> and \<^verbatim>\<open>prevST\<close> from bar to bar.
  \<open>supertrend_bar\<close> is the body of the loop at a bar whose ATR is not NaN: the two bands after
  the hysteresis rule, the direction and the emitted value. \<open>supertrend_run i\<close> is the
  carried state on entry to bar \<open>i\<close>; a bar whose ATR is NaN leaves it unchanged
  (\<^verbatim>\<open>continue\<close>). \<open>supertrend_at i\<close> is what the body computes at bar \<open>i\<close> of the
  given input. The read \<^verbatim>\<open>close[i - 1]\<close> at bar 0 is out of range.
\<close>

record st_state =
  prevLower :: jsnum
  prevUpper :: jsnum
  prevST :: jsnum

record st_bar =
  bar_upper :: jsnum
  bar_lower :: jsnum
  bar_st :: jsnum
  bar_dir :: int

definition supertrend_bar ::
  "jsnum list \<Rightarrow> jsnum list \<Rightarrow> jsnum list \<Rightarrow> jsnum \<Rightarrow> st_state \<Rightarrow> nat \<Rightarrow> st_bar" where
  "supertrend_bar hl2 atrVal close factor s i =
     (let upper0 = aget hl2 i + factor * aget atrVal i;
          lower0 = aget hl2 i - factor * aget atrVal i;
          closePrev = (if i = 0 then NaN else aget close (i - 1));
          lower = (if \<not> isNaN (prevLower s) \<and> \<not> isNaN (prevUpper s)
                   then (if lower0 > prevLower s \<or> closePrev < prevLower s
                         then lower0 else prevLower s)
                   else lower0);
          upper = (if \<not> isNaN (prevLower s) \<and> \<not> isNaN (prevUpper s)
                   then (if upper0 < prevUpper s \<or> closePrev > prevUpper s
                         then upper0 else prevUpper s)
                   else upper0);
          dir = (if isNaN (prevST s) then 1
                 else if jeq (prevST s) (prevUpper s)
                      then (if aget close i > upper then - 1 else 1)
                      else (if aget close i < lower then 1 else - 1));
          st = (if dir = - 1 then lower else upper)
      in \<lparr>bar_upper = upper, bar_lower = lower, bar_st = st, bar_dir = dir\<rparr>)"




text \<open>
  Parabolic SAR carries \<^verbatim>\<open>af\<close>, \<^verbatim>\<open>ep\<close>, \<^verbatim>\<open>isLong\<close> and \<^verbatim>\<open>sarVal\<close>.
  \<open>sar_step\<close> is the body of the loop at a bar \<open>i > 0\<close>; \<open>sar_run i\<close> is the state after
  bar \<open>i\<close>, whose \<^verbatim>\<open>sarVal\<close> is the value pushed at that bar.
\<close>

record sar_state =
  af :: jsnum
  ep :: jsnum
  isLong :: bool
  sarVal :: jsnum

definition sar_step ::
  "jsnum list \<Rightarrow> jsnum list \<Rightarrow> jsnum \<Rightarrow> jsnum \<Rightarrow> jsnum \<Rightarrow> nat \<Rightarrow> sar_state \<Rightarrow> sar_state" where
  "sar_step high low start inc maxAF i s =
     (let sv = sarVal s + af s * (ep s - sarVal s)
      in if isLong s then
           (let sv = Math_min3 sv (aget low (i - 1))
                       (if i > 1 then aget low (i - 2) else aget low (i - 1))
            in if aget low i < sv
               then \<lparr>af = start, ep = aget low i, isLong = False, sarVal = ep s\<rparr>
               else if aget high i > ep s
                    then \<lparr>af = Math_min (af s + inc) maxAF, ep = aget high i,
                          isLong = True, sarVal = sv\<rparr>
                    else \<lparr>af = af s, ep = ep s, isLong = True, sarVal = sv\<rparr>)
         else
           (let sv = Math_max3 sv (aget high (i - 1))
                       (if i > 1 then aget high (i - 2) else aget high (i - 1))
            in if aget high i > sv
               then \<lparr>af = start, ep = aget high i, isLong = True, sarVal = ep s\<rparr>
               else if aget low i < ep s
                    then \<lparr>af = Math_min (af s + inc) maxAF, ep = aget low i,
                          isLong = False, sarVal = sv\<rparr>
                    else \<lparr>af = af s, ep = ep s, isLong = False, sarVal = sv\<rparr>))"

fun sar_run :: "jsnum list \<Rightarrow> jsnum list \<Rightarrow> jsnum \<Rightarrow> jsnum \<Rightarrow> jsnum \<Rightarrow> nat \<Rightarrow> sar_state" where
  "sar_run high low start inc maxAF 0 =
     \<lparr>af = start, ep = aget low 0, isLong = True, sarVal = aget low 0\<rparr>"
| "sar_run high low start inc maxAF (Suc i) =
     sar_step high low start inc maxAF (Suc i) (sar_run high low start inc maxAF i)"

definition sar :: "jsnum list \<Rightarrow> jsnum list \<Rightarrow> jsnum \<Rightarrow> jsnum \<Rightarrow> jsnum \<Rightarrow> jsnum list" where
  "sar high low start inc maxAF =
     map (\<lambda>i. sarVal (sar_run high low start inc maxAF i)) [0..<length high]"

text \<open>Ichimoku. The displacement is a non-negative integer.\<close>

record IchimokuResult =
  tenkan :: "jsnum list"
  kijun :: "jsnum list"
  senkouA :: "jsnum list"
  senkouB :: "jsnum list"
  chikou :: "jsnum list"

definition donchian :: "jsnum list \<Rightarrow> jsnum list \<Rightarrow> nat \<Rightarrow> jsnum list" where
  "donchian h l len =
     (let hh = highest h len; ll = lowest l len
      in mapi (\<lambda>hv i. (hv + aget ll i) / Fin 2) hh)"

definition ichimoku ::
  "jsnum list \<Rightarrow> jsnum list \<Rightarrow> jsnum list \<Rightarrow> nat \<Rightarrow> nat \<Rightarrow> nat \<Rightarrow> nat \<Rightarrow> IchimokuResult" where
  "ichimoku high low close conversionPeriods basePeriods laggingSpan2Periods displacement =
     (let tenkan = donchian high low conversionPeriods;
          kijun = donchian high low basePeriods;
          senkouA = mapi (\<lambda>t i. (t + aget kijun i) / Fin 2) tenkan;
          senkouB = donchian high low laggingSpan2Periods;
          chikou = drop displacement close @ replicate displacement NaN
      in \<lparr>tenkan = tenkan, kijun = kijun, senkouA = senkouA, senkouB = senkouB,
          chikou = chikou\<rparr>)"

section \<open>Crossover and crossunder\<close>

text \<open>
  \<^verbatim>\<open>s1.map((v, i) => i === 0 ? false : v > s2[i] && s1[i - 1] <= s2[i - 1])\<close>
\<close>

definition crossover :: "jsnum list \<Rightarrow> jsnum list \<Rightarrow> bool list" where
  "crossover s1 s2 =
     map (\<lambda>i. if i = 0 then False else aget s1 i > aget s2 i \<and> aget s1 (i - 1) \<le> aget s2 (i - 1))
       [0..<length s1]"

definition crossunder :: "jsnum list \<Rightarrow> jsnum list \<Rightarrow> bool list" where
  "crossunder s1 s2 =
     map (\<lambda>i. if i = 0 then False else aget s1 i < aget s2 i \<and> aget s1 (i - 1) \<ge> aget s2 (i - 1))
       [0..<length s1]"

section \<open>Properties stated by the specification\<close>

text \<open>
  Values: a double that is finite (below the overflow threshold in magnitude); a finite
  value of magnitude at most \<open>B\<close>; such a value or NaN; a value that is not negative
  (a non-negative finite value or \<open>+Infinity\<close>).
\<close>

definition dbl :: "jsnum \<Rightarrow> bool" where
  "dbl x = (case x of Fin r \<Rightarrow> \<bar>r\<bar> < dbl_lim | _ \<Rightarrow> False)"

definition mag_le :: "real \<Rightarrow> jsnum \<Rightarrow> bool" where
  "mag_le B x = (case x of Fin r \<Rightarrow> \<bar>r\<bar> \<le> B | _ \<Rightarrow> False)"

definition mag_le_or_NaN :: "real \<Rightarrow> jsnum \<Rightarrow> bool" where
  "mag_le_or_NaN B x = (isNaN x \<or> mag_le B x)"

definition nn :: "jsnum \<Rightarrow> bool" where
  "nn v = (case v of Fin r \<Rightarrow> 0 \<le> r | PInf \<Rightarrow> True | _ \<Rightarrow> False)"

text \<open>
  Warm-up: the output has \<open>n\<close> positions and the first \<open>k\<close> of them are NaN;
  exactly the first \<open>k\<close> are NaN.
\<close>

definition warmup :: "jsnum list \<Rightarrow> nat \<Rightarrow> nat \<Rightarrow> bool" where
  "warmup out n k = (length out = n \<and> (\<forall>i < n. i < k \<longrightarrow> isNaN (out ! i)))"

definition warmup_exact :: "jsnum list \<Rightarrow> nat \<Rightarrow> nat \<Rightarrow> bool" where
  "warmup_exact out n k = (length out = n \<and> (\<forall>i < n. isNaN (out ! i) = (i < k)))"









section \<open>Facts about numbers and arrays\<close>

lemma dbl_lim_code [code]:
  "dbl_lim = 179769313486231580793728971405303415079934132710037826936173778980444968292764750946649017977587207096330286416692887910946555547851940402630657488671505820681908902000708383676273854845817711531764475730270069855571366959622842914819860834936475292719074168444365510704342711559699508093042880177904174497792"
  by (simp add: dbl_lim_def)

lemma dbl_lim_gt: "2 ^ 1023 < dbl_lim"
  by (simp add: dbl_lim_def)

lemma dbl_lim_pos [simp]: "0 < dbl_lim"
  by (simp add: dbl_lim_def)

lemma small_lt_dbl_lim: "r \<le> 2 ^ 1023 \<Longrightarrow> r < dbl_lim"
  using dbl_lim_gt by simp

lemma ovf_Fin: "\<bar>r\<bar> < dbl_lim \<Longrightarrow> ovf r = Fin r"
  by (auto simp: ovf_def)

lemma ovf_0 [simp]: "ovf 0 = Fin 0"
  by (simp add: ovf_Fin)

lemma ovf_cases:
  "ovf r = PInf \<and> dbl_lim \<le> r \<or> ovf r = NInf \<and> r \<le> - dbl_lim \<or> ovf r = Fin r \<and> \<bar>r\<bar> < dbl_lim"
  using dbl_lim_pos by (auto simp: ovf_def simp del: dbl_lim_pos)

lemma ovf_PInf_iff: "(ovf r = PInf) = (dbl_lim \<le> r)"
  by (auto simp: ovf_def)

lemma ovf_NInf_iff: "(ovf r = NInf) = (r \<le> - dbl_lim)"
  using dbl_lim_pos by (auto simp: ovf_def simp del: dbl_lim_pos)

lemma ovf_not_NaN [simp]: "ovf r \<noteq> NaN" "\<not> isNaN (ovf r)"
  by (auto simp: ovf_def)

lemma ovf_nonneg: "0 \<le> r \<Longrightarrow> ovf r = PInf \<or> ovf r = Fin r"
  using dbl_lim_pos by (auto simp: ovf_def simp del: dbl_lim_pos)

lemma ovf_nonpos: "r \<le> 0 \<Longrightarrow> ovf r = NInf \<or> ovf r = Fin r"
  using dbl_lim_pos by (auto simp: ovf_def simp del: dbl_lim_pos)

lemma less_jsnum_asym: "(a::jsnum) < b \<Longrightarrow> \<not> b < a"
  by (cases a; cases b) auto

lemma aget_nth [simp]: "i < length xs \<Longrightarrow> aget xs i = xs ! i"
  by (simp add: aget_def)

lemma is_fin_iff: "is_fin a = (\<exists>r. a = Fin r)"
  by (cases a) auto

lemma is_fin_not_NaN: "is_fin a \<Longrightarrow> \<not> isNaN a"
  by (cases a) auto


lemma dbl_iff: "dbl x = (\<exists>r. x = Fin r \<and> \<bar>r\<bar> < dbl_lim)"
  by (cases x) (auto simp: dbl_def)

lemma mag_le_iff: "mag_le B x = (\<exists>r. x = Fin r \<and> \<bar>r\<bar> \<le> B)"
  by (cases x) (auto simp: mag_le_def)

lemma mag_le_mono: "mag_le A x \<Longrightarrow> A \<le> B \<Longrightarrow> mag_le B x"
  by (auto simp: mag_le_iff)

lemma mag_le_dbl: "mag_le B x \<Longrightarrow> B < dbl_lim \<Longrightarrow> dbl x"
  by (auto simp: mag_le_iff dbl_iff)

lemma mag_le_is_fin: "mag_le B x \<Longrightarrow> is_fin x"
  by (auto simp: mag_le_iff)

lemma nn_iff: "nn v = (v = PInf \<or> (\<exists>r. v = Fin r \<and> 0 \<le> r))"
  by (cases v) (auto simp: nn_def)


lemma nn_ovf: "0 \<le> r \<Longrightarrow> nn (ovf r)"
  using ovf_nonneg [of r] by (auto simp: nn_def)

lemma nn_plus: "nn a \<Longrightarrow> nn b \<Longrightarrow> nn (a + b)"
  by (cases a; cases b) (simp_all add: nn_def nn_ovf [unfolded nn_def])

lemma NaN_absorb [simp]:
  "x + NaN = NaN" "NaN + x = NaN" "x * NaN = NaN" "NaN * x = NaN"
  "x / NaN = NaN" "NaN / x = NaN" "x - NaN = NaN" "NaN - x = NaN"
  by (cases x; simp add: minus_jsnum_def)+

lemma plus_fin_not_NaN: "\<not> isNaN a \<Longrightarrow> is_fin b \<Longrightarrow> \<not> isNaN (a + b)"
  by (cases a; cases b) auto

lemma minus_fin_not_NaN: "\<not> isNaN a \<Longrightarrow> is_fin b \<Longrightarrow> \<not> isNaN (a - b)"
  by (cases a; cases b) (auto simp: minus_jsnum_def)

lemma fin_minus_not_NaN: "is_fin a \<Longrightarrow> \<not> isNaN b \<Longrightarrow> \<not> isNaN (a - b)"
  by (cases a; cases b) (auto simp: minus_jsnum_def)

lemma div_num_not_NaN: "\<not> isNaN a \<Longrightarrow> 0 < n \<Longrightarrow> \<not> isNaN (a / num n)"
  by (cases a) (auto simp: num_def)


lemma nn_pow2: "\<not> isNaN a \<Longrightarrow> nn (pow2 a)"
  by (cases a) (simp_all add: nn_def pow2_def nn_ovf [unfolded nn_def])

lemma nn_abs: "\<not> isNaN a \<Longrightarrow> nn \<bar>a\<bar>"
  by (cases a) (auto simp: nn_def)

lemma nn_sqrt: "nn a \<Longrightarrow> nn (Math_sqrt a)"
  by (cases a) (auto simp: nn_def)

lemma mapi_nth: "i < length xs \<Longrightarrow> mapi f xs ! i = f (xs ! i) i"
  by (simp add: mapi_def)

lemma length_mapi [simp]: "length (mapi f xs) = length xs"
  by (simp add: mapi_def)

lemma map_upt_nth: "i < n \<Longrightarrow> map f [0..<n] ! i = f i"
  by simp

lemma fold_plus_not_NaN:
  "\<not> isNaN a \<Longrightarrow> \<forall>j \<in> set js. is_fin (g j) \<Longrightarrow> \<not> isNaN (fold (\<lambda>j s. s + g j) js a)"
  by (induction js arbitrary: a) (auto simp: plus_fin_not_NaN)

lemma fold_plus_nn:
  "nn a \<Longrightarrow> \<forall>j \<in> set js. nn (g j) \<Longrightarrow> nn (fold (\<lambda>j s. s + g j) js a)"
  by (induction js arbitrary: a) (auto simp: nn_plus)

section \<open>Lengths\<close>

lemma length_sma [simp]: "length (sma xs len) = length xs"
  by (simp add: sma_def)

lemma length_ema_loop: "length (ema_loop m i e xs) = length xs"
  by (induction xs arbitrary: i e) (auto simp: Let_def)

lemma length_ema [simp]: "length (ema xs len) = length xs"
  by (simp add: ema_def length_ema_loop)

lemma length_rma_loop: "length (rma_loop a f i r xs) = length xs"
  by (induction xs arbitrary: i r) (auto simp: Let_def)

lemma length_rma [simp]: "length (rma xs len) = length xs"
  by (simp add: rma_def length_rma_loop case_prod_beta)

section \<open>Warm-up of the windowed functions\<close>

lemma warmup_map:
  "(\<And>i. i < n \<Longrightarrow> i < k \<Longrightarrow> isNaN (f i)) \<Longrightarrow> warmup (map f [0..<n]) n k"
  by (simp add: warmup_def)

lemma warmup_sma: "warmup (sma source len) (length source) (len - 1)"
  unfolding sma_def by (rule warmup_map) auto

lemma warmup_wma: "warmup (wma source len) (length source) (len - 1)"
  unfolding wma_def by (rule warmup_map) auto

lemma warmup_alma: "warmup (alma source len offset sigma) (length source) (len - 1)"
  unfolding alma_def Let_def case_prod_beta by (rule warmup_map) auto

lemma warmup_highest: "warmup (highest source len) (length source) (len - 1)"
  unfolding highest_def by (rule warmup_map) auto

lemma warmup_lowest: "warmup (lowest source len) (length source) (len - 1)"
  unfolding lowest_def by (rule warmup_map) auto

lemma warmup_stdev: "warmup (stdev source len) (length source) (len - 1)"
  unfolding stdev_def Let_def by (rule warmup_map) auto

lemma warmup_dev: "warmup (dev source len) (length source) (len - 1)"
  unfolding dev_def Let_def by (rule warmup_map) auto

lemma warmup_variance: "warmup (variance source len biased) (length source) (len - 1)"
  unfolding variance_def Let_def by (rule warmup_map) auto

lemma warmup_median: "warmup (median srt source len) (length source) (len - 1)"
  unfolding median_def by (rule warmup_map) auto

lemma warmup_mode: "warmup (mode source len) (length source) (len - 1)"
  unfolding mode_def by (rule warmup_map) auto

lemma warmup_cog: "warmup (cog source len) (length source) (len - 1)"
  unfolding cog_def by (rule warmup_map) auto

lemma warmup_linreg: "warmup (linreg source len offset) (length source) (len - 1)"
  unfolding linreg_def by (rule warmup_map) auto

lemma warmup_correlation: "warmup (correlation s1 s2 len) (length s1) (len - 1)"
  unfolding correlation_def by (rule warmup_map) auto

lemma warmup_percentrank: "warmup (percentrank source len) (length source) (len - 1)"
  unfolding percentrank_def by (rule warmup_map) auto

lemma warmup_cmo: "warmup (cmo source len) (length source) len"
  unfolding cmo_def by (rule warmup_map) auto

lemma warmup_mfi: "warmup (mfi high low close volume len) (length close) len"
  unfolding mfi_def Let_def by (rule warmup_map) auto


section \<open>Wilder smoothing\<close>












section \<open>Relative strength index\<close>










lemma length_changes_of [simp]: "length (changes_of source) = length source - 1"
  by (simp add: changes_of_def)












section \<open>Rolling extrema and Williams %R\<close>

lemma jsnum_le_trans: "(a::jsnum) \<le> b \<Longrightarrow> b \<le> c \<Longrightarrow> a \<le> c"
  by (cases a; cases b; cases c) (auto simp: less_eq_jsnum_def jeq_def)

lemma Fin_le_iff [simp]: "(Fin a \<le> Fin b) = (a \<le> b)"
  by (auto simp: less_eq_jsnum_def jeq_def)

lemma Math_max_Fin [simp]: "Math_max (Fin a) (Fin b) = Fin (max a b)"
  by (auto simp: Math_max_def)

lemma Math_min_Fin [simp]: "Math_min (Fin a) (Fin b) = Fin (min a b)"
  by (auto simp: Math_min_def)

lemma Math_max_NInf [simp]: "Math_max NInf (Fin b) = Fin b"
  by (auto simp: Math_max_def)

lemma Math_min_PInf [simp]: "Math_min PInf (Fin b) = Fin b"
  by (auto simp: Math_min_def)

lemma fold_max_ge:
  assumes "\<forall>j \<in> set js. is_fin (g j)" "is_fin mx \<or> (mx = NInf \<and> js \<noteq> [])"
  shows "is_fin (fold (\<lambda>j mx. if \<not> isNaN (g j) then Math_max mx (g j) else mx) js mx) \<and>
         (\<forall>j \<in> set js. g j \<le> fold (\<lambda>j mx. if \<not> isNaN (g j) then Math_max mx (g j) else mx) js mx) \<and>
         (is_fin mx \<longrightarrow> mx \<le> fold (\<lambda>j mx. if \<not> isNaN (g j) then Math_max mx (g j) else mx) js mx)"
  using assms
proof (induction js arbitrary: mx)
  case Nil
  then show ?case by (auto simp: is_fin_iff)
next
  case (Cons j js)
  let ?F = "\<lambda>j mx. if \<not> isNaN (g j) then Math_max mx (g j) else mx"
  from Cons.prems obtain a where a: "g j = Fin a" by (auto simp: is_fin_iff)
  define mx' where "mx' = Math_max mx (g j)"
  from Cons.prems(2) a have fin': "is_fin mx'" and ge: "g j \<le> mx'" and ge': "is_fin mx \<longrightarrow> mx \<le> mx'"
    by (auto simp: mx'_def is_fin_iff)
  from Cons.prems(1) fin' have ih: "is_fin (fold ?F js mx') \<and> (\<forall>j \<in> set js. g j \<le> fold ?F js mx') \<and>
      (is_fin mx' \<longrightarrow> mx' \<le> fold ?F js mx')"
    by (intro Cons.IH) auto
  from a have eq: "fold ?F (j # js) mx = fold ?F js mx'" by (simp add: mx'_def)
  from ih fin' ge ge' show ?case
    unfolding eq by (auto intro: jsnum_le_trans)
qed

lemma fold_min_le:
  assumes "\<forall>j \<in> set js. is_fin (g j)" "is_fin mn \<or> (mn = PInf \<and> js \<noteq> [])"
  shows "is_fin (fold (\<lambda>j mn. if \<not> isNaN (g j) then Math_min mn (g j) else mn) js mn) \<and>
         (\<forall>j \<in> set js. fold (\<lambda>j mn. if \<not> isNaN (g j) then Math_min mn (g j) else mn) js mn \<le> g j) \<and>
         (is_fin mn \<longrightarrow> fold (\<lambda>j mn. if \<not> isNaN (g j) then Math_min mn (g j) else mn) js mn \<le> mn)"
  using assms
proof (induction js arbitrary: mn)
  case Nil
  then show ?case by (auto simp: is_fin_iff)
next
  case (Cons j js)
  let ?F = "\<lambda>j mn. if \<not> isNaN (g j) then Math_min mn (g j) else mn"
  from Cons.prems obtain a where a: "g j = Fin a" by (auto simp: is_fin_iff)
  define mn' where "mn' = Math_min mn (g j)"
  from Cons.prems(2) a have fin': "is_fin mn'" and ge: "mn' \<le> g j" and ge': "is_fin mn \<longrightarrow> mn' \<le> mn"
    by (auto simp: mn'_def is_fin_iff)
  from Cons.prems(1) fin' have ih: "is_fin (fold ?F js mn') \<and> (\<forall>j \<in> set js. fold ?F js mn' \<le> g j) \<and>
      (is_fin mn' \<longrightarrow> fold ?F js mn' \<le> mn')"
    by (intro Cons.IH) auto
  from a have eq: "fold ?F (j # js) mn = fold ?F js mn'" by (simp add: mn'_def)
  from ih fin' ge ge' show ?case
    unfolding eq by (auto intro: jsnum_le_trans)
qed

lemma highest_window:
  assumes "list_all is_fin source" "1 \<le> len" "len - 1 \<le> i" "i < length source"
  shows "is_fin (highest source len ! i) \<and> source ! i \<le> highest source len ! i"
proof -
  define g where "g = (\<lambda>j. aget source (i - j))"
  define r where "r = fold (\<lambda>j mx. if \<not> isNaN (g j) then Math_max mx (g j) else mx) [0..<len] NInf"
  have h: "highest source len ! i =
      (if int i < int len - 1 then NaN else (let mx = r in if jeq mx NInf then NaN else mx))"
    unfolding highest_def r_def g_def by (simp only: map_upt_nth [OF assms(4)])
  from assms(2,3) have ni: "\<not> int i < int len - 1" by linarith
  from assms have "\<forall>j \<in> set [0..<len]. is_fin (g j)"
    by (auto simp: list_all_length g_def)
  moreover from assms(2) have "is_fin NInf \<or> (NInf = NInf \<and> [0..<len] \<noteq> [])" by simp
  ultimately have rr: "is_fin r \<and> (\<forall>j \<in> set [0..<len]. g j \<le> r) \<and> (is_fin NInf \<longrightarrow> NInf \<le> r)"
    unfolding r_def by (rule fold_max_ge)
  moreover from assms(2) have "0 \<in> set [0..<len]" by simp
  ultimately have "g 0 \<le> r" by blast
  with assms(4) have "source ! i \<le> r" by (simp add: g_def)
  with rr h ni show ?thesis
    by (auto simp: Let_def is_fin_iff jeq_def)
qed

lemma lowest_window:
  assumes "list_all is_fin source" "1 \<le> len" "len - 1 \<le> i" "i < length source"
  shows "is_fin (lowest source len ! i) \<and> lowest source len ! i \<le> source ! i"
proof -
  define g where "g = (\<lambda>j. aget source (i - j))"
  define r where "r = fold (\<lambda>j mn. if \<not> isNaN (g j) then Math_min mn (g j) else mn) [0..<len] PInf"
  have h: "lowest source len ! i =
      (if int i < int len - 1 then NaN else (let mn = r in if jeq mn PInf then NaN else mn))"
    unfolding lowest_def r_def g_def by (simp only: map_upt_nth [OF assms(4)])
  from assms(2,3) have ni: "\<not> int i < int len - 1" by linarith
  from assms have "\<forall>j \<in> set [0..<len]. is_fin (g j)"
    by (auto simp: list_all_length g_def)
  moreover from assms(2) have "is_fin PInf \<or> (PInf = PInf \<and> [0..<len] \<noteq> [])" by simp
  ultimately have rr: "is_fin r \<and> (\<forall>j \<in> set [0..<len]. r \<le> g j) \<and> (is_fin PInf \<longrightarrow> r \<le> PInf)"
    unfolding r_def by (rule fold_min_le)
  moreover from assms(2) have "0 \<in> set [0..<len]" by simp
  ultimately have "r \<le> g 0" by blast
  with assms(4) have "r \<le> source ! i" by (simp add: g_def)
  with rr h ni show ?thesis
    by (auto simp: Let_def is_fin_iff jeq_def)
qed

lemma highest_not_NInf: "aget (highest source len) i \<noteq> NInf"
  by (auto simp: aget_def highest_def Let_def jeq_def)

lemma lowest_not_PInf: "aget (lowest source len) i \<noteq> PInf"
  by (auto simp: aget_def lowest_def Let_def jeq_def)


lemma wpr_nth:
  "i < length close \<Longrightarrow>
   wpr high low close len ! i =
     (let range = aget (highest high len) i - aget (lowest low len) i
      in if jeq range (Fin 0) then Fin (- 50)
         else ((aget (highest high len) i - close ! i) / range) * Fin (- 100))"
  by (simp add: wpr_def Let_def mapi_nth)

lemma wpr_zero_range:
  assumes "i < length close" "jeq (aget (highest high len) i) (aget (lowest low len) i)"
  shows "wpr high low close len ! i = Fin (- 50)"
proof -
  from assms(2) highest_not_NInf [of high len i] lowest_not_PInf [of low len i]
  obtain h where "aget (highest high len) i = Fin h" "aget (lowest low len) i = Fin h"
    by (cases "aget (highest high len) i") (auto simp: jeq_def)
  with assms(1) show ?thesis
    by (simp add: wpr_nth jeq_def minus_jsnum_def)
qed

lemma fold_max_mag:
  assumes "\<forall>j \<in> set js. mag_le B (g j)" "mag_le B mx \<or> (mx = NInf \<and> js \<noteq> [])"
  shows "mag_le B (fold (\<lambda>j mx. if \<not> isNaN (g j) then Math_max mx (g j) else mx) js mx)"
  using assms
proof (induction js arbitrary: mx)
  case Nil
  then show ?case by simp
next
  case (Cons j js)
  from Cons.prems obtain a where a: "g j = Fin a" "\<bar>a\<bar> \<le> B" by (auto simp: mag_le_iff)
  with Cons.prems(2) have "mag_le B (Math_max mx (g j))"
    by (auto simp: mag_le_iff max_def)
  with Cons.prems(1) a show ?case
    by (simp add: Cons.IH)
qed

lemma highest_mag:
  assumes "list_all (mag_le B) source" "1 \<le> len" "len - 1 \<le> i" "i < length source"
  shows "mag_le B (highest source len ! i)"
proof -
  define g where "g = (\<lambda>j. aget source (i - j))"
  define r where "r = fold (\<lambda>j mx. if \<not> isNaN (g j) then Math_max mx (g j) else mx) [0..<len] NInf"
  have h: "highest source len ! i =
      (if int i < int len - 1 then NaN else (let mx = r in if jeq mx NInf then NaN else mx))"
    unfolding highest_def r_def g_def by (simp only: map_upt_nth [OF assms(4)])
  from assms(2,3) have ni: "\<not> int i < int len - 1" by linarith
  from assms have "\<forall>j \<in> set [0..<len]. mag_le B (g j)"
    by (auto simp: list_all_length g_def)
  moreover from assms(2) have "mag_le B NInf \<or> (NInf = NInf \<and> [0..<len] \<noteq> [])" by simp
  ultimately have "mag_le B r" unfolding r_def by (rule fold_max_mag)
  with h ni show ?thesis
    by (auto simp: Let_def mag_le_iff jeq_def)
qed

lemma wpr_range:
  assumes fin: "list_all is_fin high" "list_all is_fin low" "list_all is_fin close"
    and len: "length high = length close" "length low = length close"
    and i: "1 \<le> len" "len - 1 \<le> i" "i < length close"
    and bar: "low ! i \<le> close ! i" "close ! i \<le> high ! i"
    and ne: "\<not> jeq (aget (highest high len) i) (aget (lowest low len) i)"
  shows "if aget (highest high len) i - close ! i = PInf
         then wpr high low close len ! i = NaN
         else Fin (- 100) \<le> wpr high low close len ! i \<and> wpr high low close len ! i \<le> Fin 0"
proof -
  from highest_window [of high len i] fin len i
  obtain H where H: "highest high len ! i = Fin H" "high ! i \<le> Fin H"
    by (auto simp: is_fin_iff)
  from lowest_window [of low len i] fin len i
  obtain L where L: "lowest low len ! i = Fin L" "Fin L \<le> low ! i"
    by (auto simp: is_fin_iff)
  from fin len i obtain hi lo c where v: "high ! i = Fin hi" "low ! i = Fin lo" "close ! i = Fin c"
    by (auto simp: list_all_length is_fin_iff) (metis is_fin_iff)
  from H L v bar have ord: "L \<le> lo" "lo \<le> c" "c \<le> hi" "hi \<le> H" by simp_all
  from i len have ag: "aget (highest high len) i = Fin H" "aget (lowest low len) i = Fin L"
    using H L by (simp_all add: aget_def highest_def lowest_def)
  with ne have "H \<noteq> L" by (simp add: jeq_def)
  with ord have pos: "0 < H - L" by simp
  from ord have hc: "0 \<le> H - c" "H - c \<le> H - L" by simp_all
  have w: "wpr high low close len ! i =
      (if jeq (ovf (H - L)) (Fin 0) then Fin (- 50) else (ovf (H - c) / ovf (H - L)) * Fin (- 100))"
    using i v ag by (simp add: wpr_nth minus_jsnum_def Let_def)
  have sub: "aget (highest high len) i - close ! i = ovf (H - c)"
    using v ag by (simp add: minus_jsnum_def)
  consider "ovf (H - c) = PInf" "dbl_lim \<le> H - c"
    | "ovf (H - c) = Fin (H - c)" "ovf (H - L) = PInf"
    | "ovf (H - c) = Fin (H - c)" "ovf (H - L) = Fin (H - L)"
    using ovf_nonneg [of "H - c"] ovf_nonneg [of "H - L"] hc pos
    by (auto simp: ovf_PInf_iff)
  then show ?thesis
  proof cases
    case 1
    with hc have "dbl_lim \<le> H - L" by simp
    then have "ovf (H - L) = PInf" by (simp add: ovf_def)
    with 1 show ?thesis unfolding sub w by (simp add: jeq_def)
  next
    case 2
    then show ?thesis unfolding sub w by (simp add: jeq_def)
  next
    case 3
    define q where "q = (H - c) / (H - L)"
    from hc pos have f1: "0 \<le> q" by (simp add: q_def)
    from hc pos have f2: "q \<le> 1" by (simp add: q_def divide_le_eq)
    from f1 f2 have b: "- 100 \<le> q * - 100" "q * - 100 \<le> 0"
      by simp_all
    from f1 f2 have "\<bar>q\<bar> \<le> 2 ^ 1023" by simp
    then have oq: "ovf q = Fin q" by (intro ovf_Fin small_lt_dbl_lim)
    from b have "\<bar>q * - 100\<bar> \<le> 2 ^ 1023" by simp
    then have oq': "ovf (q * - 100) = Fin (q * - 100)" by (intro ovf_Fin small_lt_dbl_lim)
    from pos 3 oq oq' have val: "wpr high low close len ! i = Fin (q * - 100)"
      unfolding w by (simp add: jeq_def q_def)
    from 3 show ?thesis unfolding sub val using b by simp
  qed
qed

lemma wpr_no_overflow:
  assumes "list_all (mag_le (2 ^ 1022)) high" "list_all (mag_le (2 ^ 1022)) close"
    and "length high = length close" "1 \<le> len" "len - 1 \<le> i" "i < length close"
  shows "aget (highest high len) i - close ! i \<noteq> PInf"
proof -
  from assms have "mag_le (2 ^ 1022) (highest high len ! i)"
    by (intro highest_mag) auto
  then obtain H where H: "highest high len ! i = Fin H" "\<bar>H\<bar> \<le> 2 ^ 1022"
    by (auto simp: mag_le_iff)
  from assms obtain c where c: "close ! i = Fin c" "\<bar>c\<bar> \<le> 2 ^ 1022"
    by (auto simp: list_all_length mag_le_iff)
  from H c have "\<bar>H - c\<bar> \<le> 2 ^ 1023" by simp
  then have "ovf (H - c) = Fin (H - c)" by (intro ovf_Fin small_lt_dbl_lim)
  with H c assms show ?thesis
    by (simp add: minus_jsnum_def aget_def highest_def)
qed

lemma length_tr [simp]: "length (tr high low close) = Suc (length high - 1)"
  by (simp add: tr_def)

lemma bar_lower_cases:
  "bar_lower (supertrend_bar hl2 atrVal close factor s i) = aget hl2 i - factor * aget atrVal i \<or>
   bar_lower (supertrend_bar hl2 atrVal close factor s i) = prevLower s \<and> \<not> isNaN (prevLower s)"
  by (simp add: supertrend_bar_def Let_def)

lemma bar_upper_cases:
  "bar_upper (supertrend_bar hl2 atrVal close factor s i) = aget hl2 i + factor * aget atrVal i \<or>
   bar_upper (supertrend_bar hl2 atrVal close factor s i) = prevUpper s \<and> \<not> isNaN (prevUpper s)"
  by (simp add: supertrend_bar_def Let_def)


section \<open>SuperTrend\<close>










section \<open>Claims\<close>








text \<open>
  C4. Where the designated denominator is exactly zero the function returns its sentinel:
  \<^verbatim>\<open>rsi\<close> returns 100 where the smoothed loss is 0; the raw %K of \<^verbatim>\<open>stoch\<close> is 50 where
  the highest high minus the lowest low is 0; \<^verbatim>\<open>cci\<close> returns 0 where the mean absolute
  deviation of the typical price is 0; \<^verbatim>\<open>bbw\<close> and \<^verbatim>\<open>kcw\<close> return 0 where their basis
  (the simple, respectively exponential, average) is 0; \<^verbatim>\<open>cmo\<close> returns 0 where
  \<^verbatim>\<open>sumUp + sumDown\<close> is 0; \<^verbatim>\<open>tsi\<close> returns 0 where the smoothed absolute change is 0.
\<close>

theorem C4_degenerate_denominator:
  "(i < length (rsi_avgGains source len) \<and> aget (rsi_avgLosses source len) i = Fin 0
      \<longrightarrow> rsi source len ! Suc i = Fin 100) \<and>
   (i < length close \<and> aget (highest high len) i - aget (lowest low len) i = Fin 0
      \<longrightarrow> stoch_rawK close high low len ! i = Fin 50) \<and>
   (i < length high \<and> aget (dev (typical high low close) len) i = Fin 0
      \<longrightarrow> cci high low close len ! i = Fin 0) \<and>
   (i < length source \<and> aget (sma source len) i = Fin 0
      \<longrightarrow> bbw source len mult ! i = Fin 0) \<and>
   (i < length close \<and> aget (ema close len) i = Fin 0
      \<longrightarrow> kcw high low close len mult atrLength ! i = Fin 0) \<and>
   (len \<le> i \<and> i < length source \<and>
    fst (cmo_sums source len i) + snd (cmo_sums source len i) = Fin 0
      \<longrightarrow> cmo source len ! i = Fin 0) \<and>
   (i < length (tsi source shortLength longLength) \<and>
    aget (tsi_smoothedAbs source shortLength longLength) i = Fin 0
      \<longrightarrow> tsi source shortLength longLength ! i = Fin 0)"
proof (intro conjI impI; elim conjE)
  assume "i < length (rsi_avgGains source len)" "aget (rsi_avgLosses source len) i = Fin 0"
  then show "rsi source len ! Suc i = Fin 100"
    by (simp add: rsi_def jeq_def Let_def)
next
  assume "i < length close" "aget (highest high len) i - aget (lowest low len) i = Fin 0"
  then show "stoch_rawK close high low len ! i = Fin 50"
    by (simp add: stoch_rawK_def mapi_nth jeq_def Let_def)
next
  assume "i < length high" "aget (dev (typical high low close) len) i = Fin 0"
  then show "cci high low close len ! i = Fin 0"
    by (simp add: cci_def mapi_nth jeq_def typical_def Let_def)
next
  assume "i < length source" "aget (sma source len) i = Fin 0"
  then show "bbw source len mult ! i = Fin 0"
    by (simp add: bbw_def bb_def mapi_nth jeq_def Let_def)
next
  assume "i < length close" "aget (ema close len) i = Fin 0"
  then show "kcw high low close len mult atrLength ! i = Fin 0"
    by (simp add: kcw_def kc_def mapi_nth jeq_def Let_def)
next
  assume "len \<le> i" "i < length source"
    "fst (cmo_sums source len i) + snd (cmo_sums source len i) = Fin 0"
  then show "cmo source len ! i = Fin 0"
    by (simp add: cmo_def jeq_def case_prod_beta)
next
  assume "i < length (tsi source shortLength longLength)"
    "aget (tsi_smoothedAbs source shortLength longLength) i = Fin 0"
  then show "tsi source shortLength longLength ! i = Fin 0"
    by (simp add: tsi_def mapi_nth jeq_def Let_def)
qed

theorem C4_witness:
  "rsi [Fin 0, Fin 0, Fin 0] 1 ! Suc 1 = Fin 100 \<and>
   stoch_rawK [Fin 0, Fin 0, Fin 0] [Fin 0, Fin 0, Fin 0] [Fin 0, Fin 0, Fin 0] 1 ! 1 = Fin 50 \<and>
   cci [Fin 0, Fin 0, Fin 0] [Fin 0, Fin 0, Fin 0] [Fin 0, Fin 0, Fin 0] 1 ! 1 = Fin 0 \<and>
   bbw [Fin 0, Fin 0, Fin 0] 1 (Fin 2) ! 1 = Fin 0 \<and>
   kcw [Fin 0, Fin 0, Fin 0] [Fin 0, Fin 0, Fin 0] [Fin 0, Fin 0, Fin 0] 1 (Fin 2) 10 ! 1 = Fin 0 \<and>
   cmo [Fin 0, Fin 0, Fin 0] 1 ! 1 = Fin 0 \<and>
   tsi [Fin 0, Fin 0, Fin 0] 1 1 ! 1 = Fin 0"
proof -
  let ?z = "[Fin 0, Fin 0, Fin 0]"
  have h1: "aget (rsi_avgLosses ?z 1) 1 = Fin 0" by code_simp
  have h1': "1 < length (rsi_avgGains ?z 1)" by code_simp
  have h2: "aget (highest ?z 1) 1 - aget (lowest ?z 1) 1 = Fin 0" by code_simp
  have h3: "aget (dev (typical ?z ?z ?z) 1) 1 = Fin 0" by code_simp
  have h4: "aget (sma ?z 1) 1 = Fin 0" by code_simp
  have h5: "aget (ema ?z 1) 1 = Fin 0" by code_simp
  have h6: "fst (cmo_sums ?z 1 1) + snd (cmo_sums ?z 1 1) = Fin 0" by code_simp
  have h7: "aget (tsi_smoothedAbs ?z 1 1) 1 = Fin 0" by code_simp
  have h7': "1 < length (tsi ?z 1 1)" by code_simp
  show ?thesis
    using C4_degenerate_denominator [of 1 ?z 1 ?z ?z ?z "Fin 2" 10 1 1]
      h1 h1' h2 h3 h4 h5 h6 h7 h7'
    by simp
qed






text \<open>
  C7 says that every output has the length of the primary input, for every input. The
  code misses three edge cases: \<^verbatim>\<open>rsi\<close> and \<^verbatim>\<open>tr\<close> return one value on an empty input
  (\<^verbatim>\<open>rsi\<close> pushes its leading NaN and \<^verbatim>\<open>tr\<close> its first bar unconditionally), and the
  \<^verbatim>\<open>chikou\<close> of \<^verbatim>\<open>ichimoku\<close> has \<open>displacement\<close> values when the input is shorter than the
  displacement.
\<close>

theorem C7_length_divergence:
  "length (rsi source len) = max 1 (length source) \<and>
   length (tr high low close) = max 1 (length high) \<and>
   length (chikou (ichimoku high low close conversionPeriods basePeriods laggingSpan2Periods
             displacement)) = max (length close) displacement \<and>
   length (rsi [] 14) = 1 \<and>
   length (tr [] [] []) = 1 \<and>
   length (chikou (ichimoku [Fin 1] [Fin 1] [Fin 1] 9 26 52 26)) = 26"
  by (auto simp: rsi_def rsi_avgGains_def Let_def ichimoku_def)


text \<open>
  C9. For equal-length series and every index \<open>i\<close>, crossover and crossunder are never
  both true, both are false at index 0, crossover at \<open>i > 0\<close> is true exactly when
  \<open>s1[i-1] <= s2[i-1]\<close> and \<open>s1[i] > s2[i]\<close>, and
  \<open>crossover([1,3],[2,2]) = [false, true]\<close>.
\<close>

theorem C9_crossover_crossunder:
  "length s1 = length s2 \<longrightarrow>
     length (crossover s1 s2) = length s1 \<and> length (crossunder s1 s2) = length s1 \<and>
     (\<forall>i < length s1.
        \<not> (crossover s1 s2 ! i \<and> crossunder s1 s2 ! i) \<and>
        (i = 0 \<longrightarrow> \<not> crossover s1 s2 ! i \<and> \<not> crossunder s1 s2 ! i) \<and>
        (0 < i \<longrightarrow> crossover s1 s2 ! i = (s1 ! (i - 1) \<le> s2 ! (i - 1) \<and> s1 ! i > s2 ! i))) \<and>
     crossover [Fin 1, Fin 3] [Fin 2, Fin 2] = [False, True]"
proof -
  have ex: "crossover [Fin 1, Fin 3] [Fin 2, Fin 2] = [False, True]"
    by (simp add: crossover_def aget_def less_eq_jsnum_def jeq_def upt_rec)
  have excl: "\<not> (crossover s1 s2 ! i \<and> crossunder s1 s2 ! i)" if "i < length s1" for i
    using that by (auto simp: crossover_def crossunder_def dest: less_jsnum_asym)
  have zero: "\<not> crossover s1 s2 ! 0 \<and> \<not> crossunder s1 s2 ! 0" if "0 < length s1"
    using that by (simp add: crossover_def crossunder_def)
  have char: "crossover s1 s2 ! i = (s1 ! (i - 1) \<le> s2 ! (i - 1) \<and> s1 ! i > s2 ! i)"
    if "length s1 = length s2" "i < length s1" "0 < i" for i
    using that by (auto simp: crossover_def)
  have len: "length (crossover s1 s2) = length s1 \<and> length (crossunder s1 s2) = length s1"
    by (simp add: crossover_def crossunder_def)
  show ?thesis
    using ex excl zero char len by blast
qed

theorem C9_witness:
  "crossover [Fin 1, Fin 3] [Fin 2, Fin 2] ! 1 \<and> \<not> crossunder [Fin 1, Fin 3] [Fin 2, Fin 2] ! 1"
  using C9_crossover_crossunder [of "[Fin 1, Fin 3]" "[Fin 2, Fin 2]"]
  by (simp add: less_eq_jsnum_def jeq_def)


text \<open>
  C10, as the code has it. \<^verbatim>\<open>wpr\<close> returns exactly \<open>-50\<close> at every index where the rolling
  highest high equals the rolling lowest low. At every other index \<open>i \<ge> length - 1\<close>, for
  finite inputs with \<open>low[i] \<le> close[i] \<le> high[i]\<close>, the output lies in \<open>[-100, 0]\<close>
  unless the difference \<open>highest - close[i]\<close> overflows to \<open>+Infinity\<close>, and then the
  output is NaN (the range overflows with it, and \<open>Infinity / Infinity\<close> is NaN). The
  difference does not overflow when highs and closes have magnitude at most \<open>2^1022\<close>.
\<close>

theorem C10_wpr:
  "(i < length close \<and> jeq (aget (highest high len) i) (aget (lowest low len) i)
      \<longrightarrow> wpr high low close len ! i = Fin (- 50)) \<and>
   (list_all is_fin high \<and> list_all is_fin low \<and> list_all is_fin close \<and>
    length high = length close \<and> length low = length close \<and>
    1 \<le> len \<and> len - 1 \<le> i \<and> i < length close \<and>
    low ! i \<le> close ! i \<and> close ! i \<le> high ! i \<and>
    \<not> jeq (aget (highest high len) i) (aget (lowest low len) i)
      \<longrightarrow> (if aget (highest high len) i - close ! i = PInf
           then wpr high low close len ! i = NaN
           else Fin (- 100) \<le> wpr high low close len ! i \<and> wpr high low close len ! i \<le> Fin 0)) \<and>
   (list_all (mag_le (2 ^ 1022)) high \<and> list_all (mag_le (2 ^ 1022)) close \<and>
    length high = length close \<and> 1 \<le> len \<and> len - 1 \<le> i \<and> i < length close
      \<longrightarrow> aget (highest high len) i - close ! i \<noteq> PInf)"
  using wpr_zero_range [of i close high len low] wpr_range [of high low close len i]
    wpr_no_overflow [of high close len i]
  by blast

theorem C10_witness:
  "wpr [Fin 3, Fin 3] [Fin 3, Fin 3] [Fin 3, Fin 3] 2 ! 1 = Fin (- 50) \<and>
   Fin (- 100) \<le> wpr [Fin 3, Fin 5] [Fin 1, Fin 2] [Fin 2, Fin 4] 2 ! 1 \<and>
   wpr [Fin 3, Fin 5] [Fin 1, Fin 2] [Fin 2, Fin 4] 2 ! 1 \<le> Fin 0 \<and>
   wpr [Fin (2 ^ 1023), Fin (2 ^ 1023)] [Fin (- (2 ^ 1023)), Fin (- (2 ^ 1023))]
       [Fin (- (2 ^ 1023)), Fin 0] 1 ! 0 = NaN"
proof -
  let ?H = "[Fin (2 ^ 1023), Fin (2 ^ 1023)]" and ?L = "[Fin (- (2 ^ 1023)), Fin (- (2 ^ 1023))]"
  let ?C = "[Fin (- (2 ^ 1023)), Fin 0]"
  let ?h = "[Fin 3, Fin 5]" and ?l = "[Fin 1, Fin 2]" and ?c = "[Fin 2, Fin 4]"
  have h1: "jeq (aget (highest [Fin 3, Fin 3] 2) 1) (aget (lowest [Fin 3, Fin 3] 2) 1)"
    by code_simp
  have h2: "list_all is_fin ?h \<and> list_all is_fin ?l \<and> list_all is_fin ?c \<and>
    length ?h = length ?c \<and> length ?l = length ?c \<and>
    (1::nat) \<le> 2 \<and> (2::nat) - 1 \<le> 1 \<and> 1 < length ?c \<and>
    ?l ! 1 \<le> ?c ! 1 \<and> ?c ! 1 \<le> ?h ! 1 \<and>
    \<not> jeq (aget (highest ?h 2) 1) (aget (lowest ?l 2) 1)"
    by code_simp
  have h3: "list_all (mag_le (2 ^ 1022)) ?h \<and> list_all (mag_le (2 ^ 1022)) ?c \<and>
    length ?h = length ?c \<and> (1::nat) \<le> 2 \<and> (2::nat) - 1 \<le> 1 \<and> 1 < length ?c"
    by (simp add: mag_le_def)
  have h4: "list_all is_fin ?H \<and> list_all is_fin ?L \<and> list_all is_fin ?C \<and>
    length ?H = length ?C \<and> length ?L = length ?C \<and>
    (1::nat) \<le> 1 \<and> (1::nat) - 1 \<le> 0 \<and> 0 < length ?C \<and>
    ?L ! 0 \<le> ?C ! 0 \<and> ?C ! 0 \<le> ?H ! 0 \<and>
    \<not> jeq (aget (highest ?H 1) 0) (aget (lowest ?L 1) 0)"
    by (simp add: highest_def lowest_def aget_def jeq_def)
  have h5: "aget (highest ?H 1) 0 - ?C ! 0 = PInf"
    by (simp add: highest_def aget_def jeq_def minus_jsnum_def ovf_def dbl_lim_def)
  from C10_wpr [of 1 "[Fin 3, Fin 3]" "[Fin 3, Fin 3]" 2 "[Fin 3, Fin 3]"] h1
  have "wpr [Fin 3, Fin 3] [Fin 3, Fin 3] [Fin 3, Fin 3] 2 ! 1 = Fin (- 50)" by simp
  moreover from C10_wpr [of 1 ?c ?h 2 ?l] h2 h3
  have "Fin (- 100) \<le> wpr ?h ?l ?c 2 ! 1 \<and> wpr ?h ?l ?c 2 ! 1 \<le> Fin 0" by metis
  moreover from C10_wpr [of 0 ?C ?H 1 ?L] h4 h5
  have "wpr ?H ?L ?C 1 ! 0 = NaN" by metis
  ultimately show ?thesis by blast
qed

text \<open>
  C10 as stated fails on finite input when the window's range overflows: with highs
  \<open>2^1023\<close>, lows \<open>-2^1023\<close> and a close of \<open>-2^1023\<close> at bar 0 (so \<open>low \<le> close \<le> high\<close>
  and the extrema differ), both \<open>highest - lowest\<close> and \<open>highest - close\<close> are
  \<open>+Infinity\<close> and the output at bar 0, a defined index, is NaN, not in \<open>[-100, 0]\<close>.
\<close>

theorem C10_counterexample:
  "list_all is_fin [Fin (2 ^ 1023), Fin (2 ^ 1023)] \<and>
   list_all is_fin [Fin (- (2 ^ 1023)), Fin (- (2 ^ 1023))] \<and>
   list_all is_fin [Fin (- (2 ^ 1023)), Fin 0] \<and>
   [Fin (- (2 ^ 1023)), Fin (- (2 ^ 1023))] ! 0 \<le> [Fin (- (2 ^ 1023)), Fin 0] ! 0 \<and>
   [Fin (- (2 ^ 1023)), Fin 0] ! 0 \<le> [Fin (2 ^ 1023), Fin (2 ^ 1023)] ! 0 \<and>
   \<not> jeq (aget (highest [Fin (2 ^ 1023), Fin (2 ^ 1023)] 1) 0)
          (aget (lowest [Fin (- (2 ^ 1023)), Fin (- (2 ^ 1023))] 1) 0) \<and>
   \<not> (Fin (- 100) \<le> wpr [Fin (2 ^ 1023), Fin (2 ^ 1023)] [Fin (- (2 ^ 1023)), Fin (- (2 ^ 1023))]
                       [Fin (- (2 ^ 1023)), Fin 0] 1 ! 0 \<and>
      wpr [Fin (2 ^ 1023), Fin (2 ^ 1023)] [Fin (- (2 ^ 1023)), Fin (- (2 ^ 1023))]
          [Fin (- (2 ^ 1023)), Fin 0] 1 ! 0 \<le> Fin 0)"
  by (simp add: wpr_def highest_def lowest_def mapi_def aget_def jeq_def Let_def
      Math_max_def Math_min_def minus_jsnum_def ovf_def dbl_lim_def less_eq_jsnum_def)

end
